theory Spec2Isabelle
  imports Main
begin

section \<open>JavaScript values used by the component and the route\<close>

text \<open>
  A value that is \<open>string | null\<close> is a \<open>string option\<close>. JavaScript's truthiness test
  (\<open>if (x)\<close>, \<open>!x\<close>, \<open>a && b\<close>, \<open>a || b\<close>) treats \<open>null\<close>, \<open>undefined\<close> and the empty
  string as false and every other string as true.
\<close>

definition truthy :: "string option \<Rightarrow> bool" where
  "truthy v = (case v of None \<Rightarrow> False | Some s \<Rightarrow> s \<noteq> [])"

text \<open>
  A \<open>File\<close>: its name, its declared media type, and its bytes, kept as the base64 text
  that a reader or an encoder produces from them.
\<close>

record File =
  fname :: string
  ftype :: string
  fbase64 :: string

text \<open>An entry of a \<open>FormData\<close> is a \<open>File\<close> or a string; \<open>get\<close> yields the first
  entry of that name, or \<open>null\<close>.\<close>

datatype form_value = FileV File | StrV string

type_synonym form_data = "(string \<times> form_value) list"

definition formData_get :: "form_data \<Rightarrow> string \<Rightarrow> form_value option" where
  "formData_get fd k = map_of fd k"

definition formData_append :: "form_data \<Rightarrow> string \<Rightarrow> form_value \<Rightarrow> form_data" where
  "formData_append fd k v = fd @ [(k, v)]"

text \<open>\<open>!v\<close> on the result of \<open>get\<close>: \<open>null\<close> and the empty string are falsy, a \<open>File\<close>
  object and a non-empty string are not.\<close>

definition falsy_entry :: "form_value option \<Rightarrow> bool" where
  "falsy_entry v = (case v of None \<Rightarrow> True | Some (StrV s) \<Rightarrow> s = [] | Some (FileV f) \<Rightarrow> False)"

text \<open>The string that \<open>JSON.parse\<close> sees: it converts its argument with \<open>String(...)\<close>,
  and a \<open>File\<close> converts to \<open>[object File]\<close>.\<close>

definition entry_to_string :: "form_value \<Rightarrow> string" where
  "entry_to_string v = (case v of StrV s \<Rightarrow> s | FileV f \<Rightarrow> ''[object File]'')"


section \<open>The prediction proxy: \<open>POST /api/face-aging\<close>\<close>

text \<open>The argument of \<open>openai.images.edit\<close> as the route builds it.\<close>

record edit_request =
  req_model :: string
  req_image :: form_value
  req_prompt :: string
  req_n :: nat
  req_size :: string
  req_quality :: string

text \<open>
  What the hosted API does is not code of this repository: the call either throws (network
  failure, quota, a provider error with its body) or resolves to a response whose optional
  \<open>data\<close> array holds items with an optional \<open>b64_json\<close>.
\<close>

record image_item =
  b64_json :: "string option"

datatype edit_result = Threw string | Resolved "image_item list option"

text \<open>
  The server side of the route: the process environment, the two \<open>JSON\<close> built-ins
  (parameters, the type \<open>'j\<close> being the parsed value), the hosted API and the clock
  (\<open>new Date().toISOString()\<close>).
\<close>

record 'j server =
  OPENAI_API_KEY :: "string option"
  JSON_parse :: "string \<Rightarrow> 'j option"
  JSON_stringify :: "'j \<Rightarrow> string"
  images_edit :: "edit_request \<Rightarrow> edit_result"
  toISOString :: string

text \<open>\<open>request.formData()\<close> rejects on a body that is not a form, with some error text.\<close>

datatype request = NotAForm string | Multipart form_data

datatype body =
    Prediction (prediction: "string option") (model_used: string) (timestamp: string)
  | Error (error: string)

record response =
  status :: nat
  body :: body

text \<open>What one call of the route does: the response to the caller, the calls made to the
  hosted API, and what was written to the server's console.\<close>

record outcome =
  resp :: response
  edit_calls :: "edit_request list"
  server_console :: "string list"

definition reply :: "nat \<Rightarrow> string \<Rightarrow> outcome" where
  "reply st msg = \<lparr>resp = \<lparr>status = st, body = Error msg\<rparr>, edit_calls = [], server_console = []\<rparr>"

text \<open>The outer \<open>catch\<close>: the error goes to the console, the caller gets a fixed text.\<close>

definition caught :: "edit_request list \<Rightarrow> string \<Rightarrow> outcome" where
  "caught calls err =
     \<lparr>resp = \<lparr>status = 500, body = Error ''Failed to process face aging prediction''\<rparr>,
      edit_calls = calls,
      server_console = [''OpenAI API error: '' @ err]\<rparr>"

definition prompt_text :: "string \<Rightarrow> string" where
  "prompt_text smash_json =
     [CHR 0x0A] @ ''              Using the provided smash model can you generate a new image of the face to show what it''
     @ [CHR 0x27] @ ''s going to look like in 5 years? '' @ [CHR 0x0A, CHR 0x0A]
     @ ''Health and lifestyle data: '' @ smash_json @ [CHR 0x0A, CHR 0x0A]
     @ ''This person is currently 30 years old.'' @ [CHR 0x0A, CHR 0x0A]
     @ ''Please analyze the health data and describe how this person''
     @ [CHR 0x27] @ ''s face might age over the next 10 years based on their lifestyle, medical history, and risk factors.''"

definition edit_request_of :: "'j server \<Rightarrow> form_value \<Rightarrow> 'j \<Rightarrow> edit_request" where
  "edit_request_of srv img parsedSmashData =
     \<lparr>req_model = ''gpt-image-1'',
      req_image = img,
      req_prompt = prompt_text (JSON_stringify srv parsedSmashData),
      req_n = 1,
      req_size = ''1024x1024'',
      req_quality = ''medium''\<rparr>"

text \<open>\<open>response.data?.[0]?.b64_json\<close>\<close>

definition first_b64 :: "image_item list option \<Rightarrow> string option" where
  "first_b64 d = (case d of None \<Rightarrow> None | Some [] \<Rightarrow> None | Some (x # _) \<Rightarrow> b64_json x)"

definition imageDataUrl :: "string option \<Rightarrow> string option" where
  "imageDataUrl base64Data =
     (case base64Data of
        Some (c # cs) \<Rightarrow> Some (''data:image/png;base64,'' @ c # cs)
      | _ \<Rightarrow> None)"

text \<open>
  The route handler. An absent entry is \<open>null\<close>, which is falsy, so the last case of
  the match is the first \<open>if\<close> of the source as well. The checks run in the order of
  the source: required fields, then the credential, then \<open>JSON.parse\<close>.
\<close>

definition POST :: "'j server \<Rightarrow> request \<Rightarrow> outcome" where
  "POST srv request =
     (case request of
        NotAForm err \<Rightarrow> caught [] err
      | Multipart formData \<Rightarrow>
          (case (formData_get formData ''image'', formData_get formData ''smash'') of
             (Some img, Some smashData) \<Rightarrow>
               if falsy_entry (Some img) \<or> falsy_entry (Some smashData)
               then reply 400 ''Both image and smash data are required''
               else if \<not> truthy (OPENAI_API_KEY srv)
               then reply 500 ''OpenAI API key not configured''
               else (case JSON_parse srv (entry_to_string smashData) of
                       None \<Rightarrow> reply 400 ''Invalid JSON in smash data''
                     | Some parsedSmashData \<Rightarrow>
                         let rq = edit_request_of srv img parsedSmashData
                         in (case images_edit srv rq of
                               Threw err \<Rightarrow> caught [rq] err
                             | Resolved d \<Rightarrow>
                                 \<lparr>resp = \<lparr>status = 200,
                                          body = Prediction (imageDataUrl (first_b64 d))
                                                   ''dall-e-2'' (toISOString srv)\<rparr>,
                                  edit_calls = [rq],
                                  server_console = []\<rparr>))
           | _ \<Rightarrow> reply 400 ''Both image and smash data are required''))"


section \<open>Numbers in \<open>localStorage\<close>: \<open>Number.prototype.toString\<close> and \<open>parseInt\<close>\<close>

text \<open>
  \<open>Date.now()\<close> is an integer number of milliseconds, far below \<open>2^53\<close>, where the
  doubles of JavaScript are exact and print in plain decimal; it is an \<open>int\<close> here.
  \<open>parseInt\<close> with one argument skips leading white space, reads a sign, takes radix 16
  after \<open>0x\<close> and radix 10 otherwise, and reads the longest prefix of digits; with no
  digit the result is \<open>NaN\<close>, here \<open>None\<close>.
\<close>

definition digit_char :: "nat \<Rightarrow> char" where
  "digit_char d = char_of (48 + d)"

fun digits :: "nat \<Rightarrow> string" where
  "digits n = (if n < 10 then [digit_char n] else digits (n div 10) @ [digit_char (n mod 10)])"

declare digits.simps [simp del]

definition toString :: "int \<Rightarrow> string" where
  "toString i = (if i < 0 then CHR ''-'' # digits (nat (- i)) else digits (nat i))"

definition is_space :: "char \<Rightarrow> bool" where
  "is_space c = (c \<in> set [CHR 0x09, CHR 0x0A, CHR 0x0B, CHR 0x0C, CHR 0x0D, CHR 0x20])"

definition digit_of :: "nat \<Rightarrow> char \<Rightarrow> nat option" where
  "digit_of radix c =
     (let k = (of_char c :: nat);
          v = (if 48 \<le> k \<and> k \<le> 57 then Some (k - 48)
               else if 97 \<le> k \<and> k \<le> 122 then Some (k - 87)
               else if 65 \<le> k \<and> k \<le> 90 then Some (k - 55)
               else None)
      in case v of None \<Rightarrow> None | Some d \<Rightarrow> if d < radix then Some d else None)"

definition valid_digit :: "nat \<Rightarrow> char \<Rightarrow> bool" where
  "valid_digit radix c = (digit_of radix c \<noteq> None)"

definition digits_value :: "nat \<Rightarrow> string \<Rightarrow> nat" where
  "digits_value radix ds =
     foldl (\<lambda>a c. a * radix + (case digit_of radix c of Some d \<Rightarrow> d | None \<Rightarrow> 0)) 0 ds"

definition parseInt :: "string \<Rightarrow> int option" where
  "parseInt s =
     (let s1 = dropWhile is_space s;
          (sgn, s2) = (case s1 of
                         [] \<Rightarrow> (1, [])
                       | c # r \<Rightarrow> if c = CHR ''-'' then (- 1, r)
                                  else if c = CHR ''+'' then (1, r) else (1, s1));
          (radix, s3) = (case s2 of
                           a # b # r \<Rightarrow> if a = CHR ''0'' \<and> (b = CHR ''x'' \<or> b = CHR ''X'')
                                        then (16, r) else (10, s2)
                         | _ \<Rightarrow> (10, s2));
          ds = takeWhile (valid_digit radix) s3
      in if ds = [] then None else Some (sgn * int (digits_value radix ds)))"


section \<open>The capture and upload component \<open>ImageUpload\<close>\<close>

text \<open>
  The component is a state machine over its \<open>useState\<close> cells, the two DOM elements behind
  its refs, the browser's \<open>localStorage\<close> and the camera hardware. Each handler is a
  function from world to world; what the browser decides (whether a read succeeds, whether
  the camera is granted, what \<open>toBlob\<close> delivers, the time) is an argument. Calls of the
  optional \<open>onImageUpload\<close> prop, \<open>alert\<close> and \<open>console.error\<close> are appended to logs.
\<close>

type_synonym media_stream = nat

record video =
  videoWidth :: nat
  videoHeight :: nat
  srcObject :: "media_stream option"
  playing :: bool

record canvas =
  canvas_width :: nat
  canvas_height :: nat
  context2d :: bool

record world =
  uploadedImage :: "string option"
  uploadedFile :: "File option"
  isLoading :: bool
  showCamera :: bool
  stream :: "media_stream option"
  faceAgingResult :: "string option"
  isProcessingAging :: bool
  videoRef :: "video option"
  canvasRef :: "canvas option"
  window_defined :: bool
  localStorage :: "string \<rightharpoonup> string"
  quota_exceeded :: "string \<Rightarrow> string \<Rightarrow> bool"
  live_streams :: "media_stream set"
  cleanup_stream :: "media_stream option"
  uploads :: "string list"
  alerts :: "string list"
  console :: "string list"

text \<open>
  \<open>videoRef\<close> and \<open>canvasRef\<close> are \<open>ref.current\<close>, \<open>None\<close> while the element is not
  mounted; \<open>context2d\<close> says whether \<open>getContext("2d")\<close> yields a context.
  \<open>window_defined\<close> is \<open>typeof window !== "undefined"\<close>. \<open>quota_exceeded k v\<close> is the
  browser's verdict on \<open>localStorage.setItem(k, v)\<close>: true when the write does not fit in
  what is left of the origin's quota. \<open>live_streams\<close> are the streams
  the browser has opened and whose tracks have not been stopped; \<open>cleanup_stream\<close> is the
  value of \<open>stream\<close> that the registered cleanup of the unmount effect closes over.
\<close>

record 'j props =
  onImageUpload :: bool
  smashData :: 'j

text \<open>\<open>onImageUpload?.(url)\<close>: a call when the prop is given (\<open>onImageUpload p\<close>), nothing
  otherwise.\<close>

definition notify :: "'j props \<Rightarrow> string \<Rightarrow> world \<Rightarrow> world" where
  "notify p url w = (if onImageUpload p then w\<lparr>uploads := uploads w @ [url]\<rparr> else w)"

definition startsWith :: "string \<Rightarrow> string \<Rightarrow> bool" where
  "startsWith s pre = (take (length pre) s = pre)"

text \<open>The result of \<open>FileReader.readAsDataURL\<close>: the media type and the base64 text of
  the bytes behind the \<open>data:\<close> scheme.\<close>

definition readAsDataURL :: "File \<Rightarrow> string" where
  "readAsDataURL f = ''data:'' @ ftype f @ '';base64,'' @ fbase64 f"

text \<open>
  \<open>localStorage.setItem\<close> stores the value, or throws \<open>QuotaExceededError\<close> and stores
  nothing (\<open>None\<close>).
\<close>

definition setItem :: "string \<Rightarrow> string \<Rightarrow> world \<Rightarrow> world option" where
  "setItem k v w =
     (if quota_exceeded w k v then None
      else Some (w\<lparr>localStorage := (localStorage w)(k \<mapsto> v)\<rparr>))"

text \<open>An exception that leaves an event handler uncaught: the browser reports it on the
  console and the rest of the handler does not run.\<close>

definition uncaught :: "string \<Rightarrow> world \<Rightarrow> world" where
  "uncaught err w = w\<lparr>console := console w @ [''Uncaught '' @ err]\<rparr>"

text \<open>A reader fires \<open>onload\<close>, or fails (no handler is installed for that, so nothing more
  runs), or cannot be started at all (the \<open>catch\<close> of \<open>handleFileSelect\<close>).\<close>

datatype read_outcome = Loaded | ReadError | ReaderThrew string

text \<open>
  The \<open>onload\<close> callback. It runs after \<open>handleFileSelect\<close> has returned, outside its
  \<open>try\<close>: when one of the two \<open>setItem\<close> calls throws, the two state updates before it
  have been made, and the later write, the call of \<open>onImageUpload\<close> and
  \<open>setIsLoading(false)\<close> are skipped.
\<close>

definition reader_onload :: "'j props \<Rightarrow> File \<Rightarrow> int \<Rightarrow> world \<Rightarrow> world" where
  "reader_onload p f now w =
     (let imageUrl = readAsDataURL f;
          w1 = w\<lparr>uploadedImage := Some imageUrl, uploadedFile := Some f\<rparr>
      in if window_defined w1
         then (case setItem ''cachedImage'' imageUrl w1 of
                 None \<Rightarrow> uncaught ''QuotaExceededError'' w1
               | Some w2 \<Rightarrow>
                   (case setItem ''cachedImageTimestamp'' (toString now) w2 of
                      None \<Rightarrow> uncaught ''QuotaExceededError'' w2
                    | Some w3 \<Rightarrow> (notify p imageUrl w3)\<lparr>isLoading := False\<rparr>))
         else (notify p imageUrl w1)\<lparr>isLoading := False\<rparr>)"

definition handleFileSelect :: "'j props \<Rightarrow> File \<Rightarrow> read_outcome \<Rightarrow> int \<Rightarrow> world \<Rightarrow> world" where
  "handleFileSelect p f outcome now w =
     (if \<not> startsWith (ftype f) ''image/''
      then w\<lparr>alerts := alerts w @ [''Please select an image file'']\<rparr>
      else let w1 = w\<lparr>isLoading := True\<rparr>
           in case outcome of
                Loaded \<Rightarrow> reader_onload p f now w1
              | ReadError \<Rightarrow> w1
              | ReaderThrew err \<Rightarrow>
                  w1\<lparr>console := console w1 @ [''Error uploading image: '' @ err],
                     isLoading := False\<rparr>)"

subsection \<open>The camera\<close>

text \<open>
  \<open>getUserMedia\<close> rejects, or resolves to a stream that the browser has opened by then.
  With the video element mounted the handler then waits for \<open>loadedmetadata\<close>: the
  second argument is the frame size that event brings, or \<open>None\<close> when the event never
  comes (the handler then never resumes).
\<close>

datatype media_outcome = Denied string | Granted media_stream "(nat \<times> nat) option"

definition handleCameraClick :: "media_outcome \<Rightarrow> world \<Rightarrow> world" where
  "handleCameraClick outcome w =
     (let w1 = w\<lparr>isLoading := True\<rparr>
      in (case outcome of
            Denied err \<Rightarrow>
              w1\<lparr>console := console w1 @ [''Error accessing camera: '' @ err],
                 isLoading := False,
                 alerts := alerts w1 @ [''Camera not available. Please use the upload option instead.'']\<rparr>
          | Granted mediaStream metadata \<Rightarrow>
              (let w2 = w1\<lparr>live_streams := insert mediaStream (live_streams w1),
                           stream := Some mediaStream,
                           showCamera := True\<rparr>
               in (case videoRef w2 of
                     None \<Rightarrow> w2\<lparr>isLoading := False\<rparr>
                   | Some v \<Rightarrow>
                       (let w3 = w2\<lparr>videoRef := Some (v\<lparr>srcObject := Some mediaStream\<rparr>)\<rparr>
                        in (case metadata of
                              Some (wd, ht) \<Rightarrow>
                                w3\<lparr>videoRef := Some (v\<lparr>srcObject := Some mediaStream,
                                                        videoWidth := wd, videoHeight := ht,
                                                        playing := True\<rparr>),
                                   isLoading := False\<rparr>
                            | None \<Rightarrow> w3))))))"

definition stopCamera :: "world \<Rightarrow> world" where
  "stopCamera w =
     (let w1 = (case stream w of
                  Some ms \<Rightarrow> w\<lparr>live_streams := live_streams w - {ms}, stream := None\<rparr>
                | None \<Rightarrow> w)
      in w1\<lparr>showCamera := False\<rparr>)"

text \<open>
  \<open>capturePhoto\<close>: \<open>blob\<close> is what \<open>canvas.toBlob\<close> hands to its callback, the base64 text
  of the JPEG or \<open>null\<close>; the reader's outcome and the time are those of the
  \<open>handleFileSelect\<close> it calls. Each early \<open>return\<close> of the source is a branch.
\<close>

definition capturePhoto :: "'j props \<Rightarrow> string option \<Rightarrow> read_outcome \<Rightarrow> int \<Rightarrow> world \<Rightarrow> world" where
  "capturePhoto p blob outcome now w =
     (case (videoRef w, canvasRef w) of
        (Some v, Some c) \<Rightarrow>
          if \<not> context2d c
          then w\<lparr>console := console w @ [''Canvas context not available'']\<rparr>
          else if videoWidth v = 0 \<or> videoHeight v = 0
          then w\<lparr>console := console w @ [''Video not ready - no dimensions''],
                 alerts := alerts w @ [''Camera not ready yet. Please wait a moment and try again.'']\<rparr>
          else let w1 = w\<lparr>canvasRef := Some (c\<lparr>canvas_width := videoWidth v,
                                                canvas_height := videoHeight v\<rparr>)\<rparr>
               in (case blob of
                     Some b \<Rightarrow>
                       stopCamera
                         (handleFileSelect p
                            \<lparr>fname = ''camera-photo.jpg'', ftype = ''image/jpeg'', fbase64 = b\<rparr>
                            outcome now w1)
                   | None \<Rightarrow>
                       w1\<lparr>console := console w1 @ [''Failed to create blob from canvas''],
                          alerts := alerts w1 @ [''Failed to capture photo. Please try again.'']\<rparr>)
      | _ \<Rightarrow> w\<lparr>console := console w @ [''Video or canvas ref not available'']\<rparr>)"

text \<open>The effect on \<open>[showCamera, stream]\<close>: attach the stream to the mounted video.\<close>

definition attach_stream_effect :: "world \<Rightarrow> world" where
  "attach_stream_effect w =
     (case (showCamera w, stream w, videoRef w) of
        (True, Some ms, Some v) \<Rightarrow> w\<lparr>videoRef := Some (v\<lparr>srcObject := Some ms\<rparr>)\<rparr>
      | _ \<Rightarrow> w)"

text \<open>
  The effect on \<open>[stream]\<close> only returns a cleanup, which stops the tracks of the stream it
  closes over. React runs the registered cleanup when a render commits with another value
  of \<open>stream\<close> (then registers the new one), and when the component unmounts.
\<close>

definition stop_tracks :: "media_stream option \<Rightarrow> world \<Rightarrow> world" where
  "stop_tracks s w =
     (case s of Some ms \<Rightarrow> w\<lparr>live_streams := live_streams w - {ms}\<rparr> | None \<Rightarrow> w)"

definition stream_cleanup_effect :: "world \<Rightarrow> world" where
  "stream_cleanup_effect w =
     (if stream w = cleanup_stream w then w
      else (stop_tracks (cleanup_stream w) w)\<lparr>cleanup_stream := stream w\<rparr>)"

definition unmount :: "world \<Rightarrow> world" where
  "unmount w = (stop_tracks (cleanup_stream w) w)\<lparr>cleanup_stream := None\<rparr>"

text \<open>
  A committed render: the video and the canvas exist exactly while \<open>showCamera\<close> holds (a
  new video has no frame yet; \<open>ctx\<close> says whether the new canvas can give a 2D context),
  then the two effects run.
\<close>

definition rerender :: "bool \<Rightarrow> world \<Rightarrow> world" where
  "rerender ctx w =
     (let w1 = (if showCamera w
                then (case videoRef w of
                        Some v \<Rightarrow> w
                      | None \<Rightarrow>
                          w\<lparr>videoRef := Some \<lparr>videoWidth = 0, videoHeight = 0,
                                               srcObject = None, playing = False\<rparr>,
                             canvasRef := Some \<lparr>canvas_width = 300, canvas_height = 150,
                                                context2d = ctx\<rparr>\<rparr>)
                else w\<lparr>videoRef := None, canvasRef := None\<rparr>)
      in attach_stream_effect (stream_cleanup_effect w1))"


subsection \<open>Removing the image\<close>

definition handleRemoveImage :: "'j props \<Rightarrow> world \<Rightarrow> world" where
  "handleRemoveImage p w =
     (let w1 = w\<lparr>uploadedImage := None, uploadedFile := None, faceAgingResult := None\<rparr>;
          w2 = (if window_defined w1
                then w1\<lparr>localStorage := (localStorage w1)
                          (''cachedImage'' := None, ''cachedImageTimestamp'' := None)\<rparr>
                else w1)
      in notify p [] w2)"

subsection \<open>Requesting the prediction\<close>

text \<open>
  \<open>fetch\<close> throws (so does reading a body that is not JSON), or resolves to a response
  with its status text. \<open>response.ok\<close> is a status from 200 to 299; \<open>result.prediction\<close>
  of a body without that field is \<open>undefined\<close>.
\<close>

datatype fetch_outcome = FetchThrew string | Fetched response string

definition ok :: "response \<Rightarrow> bool" where
  "ok r = (200 \<le> status r \<and> status r \<le> 299)"

definition result_prediction :: "body \<Rightarrow> string option" where
  "result_prediction b = (case b of Prediction pr m t \<Rightarrow> pr | Error e \<Rightarrow> None)"

definition aging_failed :: "string \<Rightarrow> world \<Rightarrow> world" where
  "aging_failed err w =
     w\<lparr>console := console w @ [''Face aging error: '' @ err],
       alerts := alerts w @ [''Failed to process face aging. Please try again.''],
       isProcessingAging := False\<rparr>"

text \<open>What runs once the awaited \<open>fetch\<close> has settled.\<close>

definition handleFaceAging_settle :: "fetch_outcome \<Rightarrow> world \<Rightarrow> world" where
  "handleFaceAging_settle outcome w =
     (case outcome of
        FetchThrew err \<Rightarrow> aging_failed err w
      | Fetched r statusText \<Rightarrow>
          if \<not> ok r then aging_failed (''API request failed: '' @ statusText) w
          else w\<lparr>faceAgingResult := result_prediction (body r), isProcessingAging := False\<rparr>)"

definition aging_formData :: "('j \<Rightarrow> string) \<Rightarrow> 'j props \<Rightarrow> File \<Rightarrow> form_data" where
  "aging_formData stringify p f =
     formData_append (formData_append [] ''image'' (FileV f))
       ''smash'' (StrV (stringify (smashData p)))"

text \<open>
  \<open>handleFaceAging\<close> up to its \<open>await\<close>, with \<open>JSON.stringify\<close> as a parameter: the
  form it sends, or none when there is no file, and the world at that point.
\<close>

definition handleFaceAging_begin ::
  "('j \<Rightarrow> string) \<Rightarrow> 'j props \<Rightarrow> world \<Rightarrow> form_data option \<times> world" where
  "handleFaceAging_begin stringify p w =
     (case uploadedFile w of
        None \<Rightarrow> (None, w\<lparr>alerts := alerts w @ [''Please upload an image first'']\<rparr>)
      | Some f \<Rightarrow> (Some (aging_formData stringify p f), w\<lparr>isProcessingAging := True\<rparr>))"

text \<open>The whole handler, with the network behind \<open>fetch\<close> as a parameter.\<close>

definition handleFaceAging ::
  "('j \<Rightarrow> string) \<Rightarrow> (form_data \<Rightarrow> fetch_outcome) \<Rightarrow> 'j props \<Rightarrow> world \<Rightarrow> world" where
  "handleFaceAging stringify fetch p w =
     (case handleFaceAging_begin stringify p w of
        (None, w1) \<Rightarrow> w1
      | (Some formData, w1) \<Rightarrow> handleFaceAging_settle (fetch formData) w1)"

text \<open>A \<open>fetch\<close> that reaches the route of this repository.\<close>

definition fetch_route :: "'j server \<Rightarrow> form_data \<Rightarrow> fetch_outcome" where
  "fetch_route srv fd = Fetched (resp (POST srv (Multipart fd))) []"

text \<open>The \<open>src\<close> of the image shown: nothing in the camera view or without an image,
  otherwise \<open>faceAgingResult || uploadedImage\<close>.\<close>

definition displayed :: "world \<Rightarrow> string option" where
  "displayed w =
     (if showCamera w then None
      else if truthy (uploadedImage w)
      then (if truthy (faceAgingResult w) then faceAgingResult w else uploadedImage w)
      else None)"

subsection \<open>The local cache\<close>

definition twentyFourHours :: int where
  "twentyFourHours = 24 * 60 * 60 * 1000"

definition remove_cached :: "world \<Rightarrow> world" where
  "remove_cached w =
     w\<lparr>localStorage := (localStorage w)
         (''cachedImage'' := None, ''cachedImageTimestamp'' := None)\<rparr>"

text \<open>
  The effect that runs once when the component mounts: the cache's \<open>read\<close>. A comparison
  with \<open>NaN\<close> is false, so a time stamp that does not parse takes the \<open>else\<close> branch.
\<close>

definition load_cached_image :: "'j props \<Rightarrow> int \<Rightarrow> world \<Rightarrow> world" where
  "load_cached_image p now w =
     (if window_defined w
      then (case (localStorage w ''cachedImage'', localStorage w ''cachedImageTimestamp'') of
              (Some cachedImage, Some ts) \<Rightarrow>
                if truthy (Some cachedImage) \<and> truthy (Some ts)
                then (case parseInt ts of
                        Some t \<Rightarrow>
                          if now - t < twentyFourHours
                          then notify p cachedImage (w\<lparr>uploadedImage := Some cachedImage\<rparr>)
                          else remove_cached w
                      | None \<Rightarrow> remove_cached w)
                else w
            | _ \<Rightarrow> w)
      else w)"

text \<open>The component as it is first rendered in a browser with the given storage, all of
  whose writes fit.\<close>

definition initial :: "(string \<rightharpoonup> string) \<Rightarrow> world" where
  "initial store =
     \<lparr>uploadedImage = None, uploadedFile = None, isLoading = False, showCamera = False,
      stream = None, faceAgingResult = None, isProcessingAging = False,
      videoRef = None, canvasRef = None, window_defined = True, localStorage = store,
      quota_exceeded = (\<lambda>k v. False),
      live_streams = {}, cleanup_stream = None, uploads = [], alerts = [], console = []\<rparr>"

subsection \<open>What the rendered view offers\<close>













section \<open>Concrete inputs\<close>

text \<open>
  Inputs at which the theorems below are evaluated. The stand-in for \<open>JSON.parse\<close> accepts
  the empty object only, which is enough to tell a text that parses from one that does not.
\<close>

definition sample_parse :: "string \<Rightarrow> string option" where
  "sample_parse s = (if s = ''{}'' then Some s else None)"

definition sample_server :: "string option \<Rightarrow> (edit_request \<Rightarrow> edit_result) \<Rightarrow> string server" where
  "sample_server key edit =
     \<lparr>OPENAI_API_KEY = key, JSON_parse = sample_parse, JSON_stringify = (\<lambda>j. j),
      images_edit = edit, toISOString = ''2025-07-01T12:00:00.000Z''\<rparr>"

definition sample_file :: File where
  "sample_file = \<lparr>fname = ''face.png'', ftype = ''image/png'', fbase64 = ''iVBORw0KGgo=''\<rparr>"

definition other_file :: File where
  "other_file = \<lparr>fname = ''second.jpg'', ftype = ''image/jpeg'', fbase64 = ''/9j/4AAQ''\<rparr>"

definition sample_form :: "string \<Rightarrow> form_data" where
  "sample_form smash = [(''image'', FileV sample_file), (''smash'', StrV smash)]"

definition sample_props :: "string props" where
  "sample_props = \<lparr>onImageUpload = True, smashData = ''{}''\<rparr>"

definition aged_response :: response where
  "aged_response =
     \<lparr>status = 200,
      body = Prediction (Some ''data:image/png;base64,QUdFRA=='') ''dall-e-2''
               ''2025-07-01T12:00:00.000Z''\<rparr>"

text \<open>
  A run of the component: a file is selected, a prediction is requested, the image is
  removed while the request is pending, and then the response arrives.
\<close>

definition late_prediction_world :: world where
  "late_prediction_world =
     handleFaceAging_settle (Fetched aged_response [])
       (handleRemoveImage sample_props
          (snd (handleFaceAging_begin (\<lambda>j. j) sample_props
                  (handleFileSelect sample_props sample_file Loaded 1751371200000
                     (initial Map.empty)))))"

text \<open>The component after a reload of the page on which a file had been selected.\<close>

definition reloaded_world :: world where
  "reloaded_world =
     initial (localStorage
       (handleFileSelect sample_props sample_file Loaded 1751371200000 (initial Map.empty)))"

text \<open>A world that shows a prediction for the selected file.\<close>

definition predicted_world :: world where
  "predicted_world =
     handleFaceAging (\<lambda>j. j) (\<lambda>fd. Fetched aged_response []) sample_props
       (handleFileSelect sample_props sample_file Loaded 1751371200000 (initial Map.empty))"

text \<open>A file of 2000 base64 characters, and a browser in which 1000 characters are left
  of the storage quota.\<close>

definition large_file :: File where
  "large_file =
     \<lparr>fname = ''large.jpg'', ftype = ''image/jpeg'', fbase64 = replicate 2000 (CHR ''A'')\<rparr>"

definition nearly_full_world :: world where
  "nearly_full_world =
     (initial Map.empty)\<lparr>quota_exceeded := (\<lambda>k v. 1000 < length k + length v)\<rparr>"

text \<open>The camera view whose canvas gives no 2D context, the video without a frame yet.\<close>

definition no_context_world :: world where
  "no_context_world = rerender False (handleCameraClick (Granted 1 None) (initial Map.empty))"


text \<open>The camera view with the video mounted and no frame yet.\<close>

definition camera_world :: world where
  "camera_world = rerender True (handleCameraClick (Granted 1 None) (initial Map.empty))"


section \<open>Round trip of the time stamp through \<open>localStorage\<close>\<close>

lemma of_char_digit_char: "d < 10 \<Longrightarrow> (of_char (digit_char d) :: nat) = 48 + d"
  by (simp add: digit_char_def)

lemma digit_of_digit_char: "d < 10 \<Longrightarrow> digit_of 10 (digit_char d) = Some d"
  by (simp add: digit_of_def of_char_digit_char)

lemma digit_char_plain:
  "d < 10 \<Longrightarrow> \<not> is_space (digit_char d) \<and> digit_char d \<noteq> CHR ''-'' \<and> digit_char d \<noteq> CHR ''+''
     \<and> digit_char d \<noteq> CHR ''x'' \<and> digit_char d \<noteq> CHR ''X''"
proof -
  assume "d < 10"
  then have k: "(of_char (digit_char d) :: nat) = 48 + d" by (rule of_char_digit_char)
  have ne: "digit_char d \<noteq> c" if "(of_char c :: nat) < 48 \<or> 57 < (of_char c :: nat)" for c
    using that k \<open>d < 10\<close> by auto
  show ?thesis
    unfolding is_space_def
    using ne [of "CHR 0x09"] ne [of "CHR 0x0A"] ne [of "CHR 0x0B"] ne [of "CHR 0x0C"]
      ne [of "CHR 0x0D"] ne [of "CHR 0x20"] ne [of "CHR ''-''"] ne [of "CHR ''+''"]
      ne [of "CHR ''x''"] ne [of "CHR ''X''"]
    by simp
qed

lemma digits_all: "c \<in> set (digits n) \<Longrightarrow> \<exists>d<10. c = digit_char d"
proof (induction n rule: digits.induct)
  case (1 n)
  show ?case
  proof (cases "n < 10")
    case True
    with 1(2) show ?thesis by (auto simp: digits.simps [of n])
  next
    case False
    with 1 show ?thesis
      by (subst (asm) (2) digits.simps) (auto intro: exI [of _ "n mod 10"])
  qed
qed

lemma digits_nonempty: "digits n \<noteq> []"
  by (subst digits.simps) simp

lemma digits_value_snoc:
  "digits_value r (ds @ [c]) = digits_value r ds * r + (case digit_of r c of Some d \<Rightarrow> d | None \<Rightarrow> 0)"
  by (simp add: digits_value_def)

lemma digits_value_digits: "digits_value 10 (digits n) = n"
proof (induction n rule: digits.induct)
  case (1 n)
  show ?case
  proof (cases "n < 10")
    case True
    then show ?thesis by (simp add: digits.simps [of n] digits_value_def digit_of_digit_char)
  next
    case False
    with 1 show ?thesis
      by (simp add: digits.simps [of n] digits_value_snoc digit_of_digit_char)
  qed
qed

lemma hex_prefix_absent:
  assumes "\<forall>c \<in> set s. c \<noteq> CHR ''x'' \<and> c \<noteq> CHR ''X''"
  shows "(case s of
      a # b # r \<Rightarrow> if a = CHR ''0'' \<and> (b = CHR ''x'' \<or> b = CHR ''X'') then (16::nat, r) else (10, s)
    | _ \<Rightarrow> (10, s)) = (10, s)"
  using assms by (auto split: list.split)

lemma hex_prefix_digits:
  "(case digits n of
      a # b # r \<Rightarrow> if a = CHR ''0'' \<and> (b = CHR ''x'' \<or> b = CHR ''X'') then (16::nat, r) else (10, digits n)
    | _ \<Rightarrow> (10, digits n)) = (10, digits n)"
proof (rule hex_prefix_absent, rule ballI)
  fix c assume "c \<in> set (digits n)"
  then obtain d where d: "d < 10" "c = digit_char d" using digits_all by blast
  show "c \<noteq> CHR ''x'' \<and> c \<noteq> CHR ''X''" using digit_char_plain [OF d(1)] d(2) by simp
qed

lemma takeWhile_digits: "takeWhile (valid_digit 10) (digits n) = digits n"
proof -
  have "valid_digit 10 c" if "c \<in> set (digits n)" for c
    using digits_all [OF that] digit_of_digit_char by (auto simp: valid_digit_def)
  then show ?thesis by (simp add: takeWhile_eq_all_conv)
qed

lemma digits_head: "\<exists>d r. d < 10 \<and> digits n = digit_char d # r"
proof -
  obtain c r where cr: "digits n = c # r" using digits_nonempty [of n] by (cases "digits n") auto
  then have "c \<in> set (digits n)" by simp
  then obtain d where "d < 10" "c = digit_char d" using digits_all by blast
  with cr show ?thesis by blast
qed

lemma parseInt_digits: "parseInt (digits n) = Some (int n)"
proof -
  obtain d r where d: "d < 10" and dr: "digits n = digit_char d # r" using digits_head by blast
  note pl = digit_char_plain [OF d]
  have s1: "dropWhile is_space (digits n) = digits n" using dr pl by simp
  have sg: "(case digits n of [] \<Rightarrow> (1::int, [])
             | c # r \<Rightarrow> if c = CHR ''-'' then (- 1, r)
                        else if c = CHR ''+'' then (1, r) else (1, digits n)) = (1, digits n)"
    using dr pl by simp
  show ?thesis
    unfolding parseInt_def Let_def s1 sg
    by (simp add: hex_prefix_digits takeWhile_digits digits_nonempty digits_value_digits)
qed

lemma parseInt_minus_digits: "parseInt (CHR ''-'' # digits n) = Some (- int n)"
proof -
  have "\<not> is_space CHR ''-''" by (simp add: is_space_def)
  then have s1: "dropWhile is_space (CHR ''-'' # digits n) = CHR ''-'' # digits n" by simp
  show ?thesis
    unfolding parseInt_def Let_def s1
    by (simp add: hex_prefix_digits takeWhile_digits digits_nonempty digits_value_digits)
qed

lemma parseInt_toString: "parseInt (toString i) = Some i"
  by (simp add: toString_def parseInt_digits parseInt_minus_digits)

lemma toString_nonempty: "toString i \<noteq> []"
  by (simp add: toString_def digits_nonempty)

lemma twentyFourHours_ms: "twentyFourHours = 86400000"
  by (simp add: twentyFourHours_def)


section \<open>The prediction proxy\<close>

text \<open>What the route does with a request that passes its three checks.\<close>

lemma POST_validated:
  assumes "formData_get fd ''image'' = Some img" and "formData_get fd ''smash'' = Some sm"
    and "\<not> falsy_entry (Some img)" and "\<not> falsy_entry (Some sm)"
    and "truthy (OPENAI_API_KEY srv)"
    and "JSON_parse srv (entry_to_string sm) = Some parsed"
  shows "POST srv (Multipart fd) =
     (case images_edit srv (edit_request_of srv img parsed) of
        Threw err \<Rightarrow> caught [edit_request_of srv img parsed] err
      | Resolved d \<Rightarrow>
          \<lparr>resp = \<lparr>status = 200,
                   body = Prediction (imageDataUrl (first_b64 d)) ''dall-e-2'' (toISOString srv)\<rparr>,
           edit_calls = [edit_request_of srv img parsed],
           server_console = []\<rparr>)"
  using assms by (simp add: POST_def Let_def)

lemma imageDataUrl_falsy: "\<not> truthy b \<Longrightarrow> imageDataUrl b = None"
  by (cases b) (auto simp: imageDataUrl_def truthy_def split: list.splits)




text \<open>
  Claim C3, as stated: with both fields present and a context that is not valid JSON the
  route answers \<open>MalformedContext\<close> (400), and \<open>ServiceUnavailable\<close> (500) occurs exactly
  when the credential is not configured. The credential is checked before the JSON, and the
  required fields before both: without a credential a context that does not parse gets the
  500; without a credential and without the context field the answer is the 400 for the
  missing field; and a context field that is present but empty counts as missing.
\<close>

theorem validation_order_counterexample:
  "JSON_parse (sample_server None (\<lambda>rq. Resolved None)) ''not json'' = None
   \<and> resp (POST (sample_server None (\<lambda>rq. Resolved None)) (Multipart (sample_form ''not json'')))
       = \<lparr>status = 500, body = Error ''OpenAI API key not configured''\<rparr>
   \<and> resp (POST (sample_server None (\<lambda>rq. Resolved None)) (Multipart [(''image'', FileV sample_file)]))
       = \<lparr>status = 400, body = Error ''Both image and smash data are required''\<rparr>
   \<and> formData_get (sample_form []) ''smash'' = Some (StrV [])
   \<and> resp (POST (sample_server (Some ''sk-live'') (\<lambda>rq. Resolved None)) (Multipart (sample_form [])))
       = \<lparr>status = 400, body = Error ''Both image and smash data are required''\<rparr>"
  by (simp add: POST_def sample_server_def sample_form_def sample_parse_def formData_get_def
      falsy_entry_def truthy_def entry_to_string_def reply_def)

text \<open>
  Claim C3, amended: for every request in which the image and the context field are both
  present and non-empty, the route answers \<open>ServiceUnavailable\<close> (500,
  \<open>OpenAI API key not configured\<close>) exactly when the credential is not configured, also
  when the context is not valid JSON; when the credential is configured and the context is
  not valid JSON it answers \<open>MalformedContext\<close> (400, \<open>Invalid JSON in smash data\<close>).
\<close>

theorem validation_order:
  assumes "formData_get fd ''image'' = Some img" and "formData_get fd ''smash'' = Some sm"
    and "\<not> falsy_entry (Some img)" and "\<not> falsy_entry (Some sm)"
  shows "(resp (POST srv (Multipart fd)) = \<lparr>status = 500, body = Error ''OpenAI API key not configured''\<rparr>
            \<longleftrightarrow> \<not> truthy (OPENAI_API_KEY srv))
       \<and> (truthy (OPENAI_API_KEY srv) \<and> JSON_parse srv (entry_to_string sm) = None
            \<longrightarrow> resp (POST srv (Multipart fd)) = \<lparr>status = 400, body = Error ''Invalid JSON in smash data''\<rparr>)"
  using assms
  by (auto simp: POST_def reply_def caught_def Let_def split: option.splits edit_result.splits)

theorem validation_order_witness:
  "truthy (OPENAI_API_KEY (sample_server (Some ''sk-live'') (\<lambda>rq. Resolved None)))
   \<and> JSON_parse (sample_server (Some ''sk-live'') (\<lambda>rq. Resolved None)) (entry_to_string (StrV ''not json'')) = None
   \<and> resp (POST (sample_server (Some ''sk-live'') (\<lambda>rq. Resolved None)) (Multipart (sample_form ''not json'')))
       = \<lparr>status = 400, body = Error ''Invalid JSON in smash data''\<rparr>"
  using validation_order [of "sample_form ''not json''" "FileV sample_file" "StrV ''not json''"
      "sample_server (Some ''sk-live'') (\<lambda>rq. Resolved None)"]
  by (simp add: sample_server_def sample_form_def sample_parse_def formData_get_def
      falsy_entry_def truthy_def entry_to_string_def)

text \<open>
  Claim C9: every successful response of the proxy carries \<open>model_used = "dall-e-2"\<close>,
  whatever the request holds, while the one call it made to the hosted API named the model
  \<open>gpt-image-1\<close>.
\<close>

theorem model_used_constant:
  assumes "status (resp (POST srv rq)) = 200"
  shows "model_used (body (resp (POST srv rq))) = ''dall-e-2''
       \<and> map req_model (edit_calls (POST srv rq)) = [''gpt-image-1'']"
  using assms
  by (auto simp: POST_def reply_def caught_def edit_request_of_def Let_def
      split: request.splits option.splits edit_result.splits if_splits)

theorem model_used_constant_witness:
  "status (resp (POST (sample_server (Some ''sk-live'') (\<lambda>rq. Resolved (Some [\<lparr>b64_json = Some ''QUdFRA==''\<rparr>])))
                   (Multipart (sample_form ''{}'')))) = 200
   \<and> model_used (body (resp (POST (sample_server (Some ''sk-live'') (\<lambda>rq. Resolved (Some [\<lparr>b64_json = Some ''QUdFRA==''\<rparr>])))
                   (Multipart (sample_form ''{}''))))) = ''dall-e-2''
   \<and> map req_model (edit_calls (POST (sample_server (Some ''sk-live'') (\<lambda>rq. Resolved (Some [\<lparr>b64_json = Some ''QUdFRA==''\<rparr>])))
                   (Multipart (sample_form ''{}'')))) = [''gpt-image-1'']"
  using model_used_constant [of "sample_server (Some ''sk-live'') (\<lambda>rq. Resolved (Some [\<lparr>b64_json = Some ''QUdFRA==''\<rparr>]))"
      "Multipart (sample_form ''{}'')"]
  by (simp add: POST_def sample_server_def sample_form_def sample_parse_def formData_get_def
      falsy_entry_def truthy_def entry_to_string_def Let_def)



section \<open>The proxy seen from the component\<close>

lemma aging_formData_get:
  "formData_get (aging_formData stringify p f) ''image'' = Some (FileV f)"
  "formData_get (aging_formData stringify p f) ''smash'' = Some (StrV (stringify (smashData p)))"
  by (simp_all add: aging_formData_def formData_append_def formData_get_def)

text \<open>
  Claim C10: when the downstream call resolves but its response has no base64 payload, the
  proxy answers 200 with \<open>prediction = null\<close>; \<open>handleFaceAging\<close> then stores that
  \<open>null\<close> over whatever prediction was there, and the image shown is the original asset
  again.
\<close>

theorem missing_payload_clears_prediction:
  fixes p :: "'j props"
  assumes "uploadedFile w = Some f"
    and "stringify (smashData p) \<noteq> []"
    and "truthy (OPENAI_API_KEY srv)"
    and "JSON_parse srv (stringify (smashData p)) = Some parsed"
    and "images_edit srv (edit_request_of srv (FileV f) parsed) = Resolved d"
    and "\<not> truthy (first_b64 d)"
    and "\<not> showCamera w" and "truthy (uploadedImage w)"
  shows "resp (POST srv (Multipart (aging_formData stringify p f)))
           = \<lparr>status = 200, body = Prediction None ''dall-e-2'' (toISOString srv)\<rparr>
       \<and> faceAgingResult (handleFaceAging stringify (fetch_route srv) p w) = None
       \<and> displayed (handleFaceAging stringify (fetch_route srv) p w) = uploadedImage w"
proof -
  have r: "resp (POST srv (Multipart (aging_formData stringify p f)))
           = \<lparr>status = 200, body = Prediction None ''dall-e-2'' (toISOString srv)\<rparr>"
    using assms(2-6)
    by (subst POST_validated [where img = "FileV f" and sm = "StrV (stringify (smashData p))" and parsed = parsed])
       (simp_all add: aging_formData_get falsy_entry_def entry_to_string_def imageDataUrl_falsy)
  have h: "handleFaceAging stringify (fetch_route srv) p w
           = w\<lparr>isProcessingAging := True, faceAgingResult := None, isProcessingAging := False\<rparr>"
    using assms(1) r
    by (simp add: handleFaceAging_def handleFaceAging_begin_def handleFaceAging_settle_def
        fetch_route_def ok_def result_prediction_def)
  show ?thesis using r h assms(7,8) by (simp add: displayed_def truthy_def)
qed

theorem missing_payload_clears_prediction_witness:
  "faceAgingResult predicted_world = Some ''data:image/png;base64,QUdFRA==''
   \<and> displayed predicted_world = Some ''data:image/png;base64,QUdFRA==''
   \<and> faceAgingResult (handleFaceAging (\<lambda>j. j)
         (fetch_route (sample_server (Some ''sk-live'') (\<lambda>rq. Resolved (Some [\<lparr>b64_json = None\<rparr>]))))
         sample_props predicted_world) = None
   \<and> displayed (handleFaceAging (\<lambda>j. j)
         (fetch_route (sample_server (Some ''sk-live'') (\<lambda>rq. Resolved (Some [\<lparr>b64_json = None\<rparr>]))))
         sample_props predicted_world) = Some ''data:image/png;base64,iVBORw0KGgo=''"
  using missing_payload_clears_prediction [of predicted_world sample_file "\<lambda>j. j" sample_props
      "sample_server (Some ''sk-live'') (\<lambda>rq. Resolved (Some [\<lparr>b64_json = None\<rparr>]))"
      "''{}''" "Some [\<lparr>b64_json = None\<rparr>]"]
  by (simp add: predicted_world_def handleFaceAging_def handleFaceAging_begin_def
      handleFaceAging_settle_def handleFileSelect_def reader_onload_def setItem_def notify_def
      initial_def sample_props_def sample_file_def sample_server_def sample_parse_def aged_response_def
      startsWith_def ok_def result_prediction_def displayed_def truthy_def readAsDataURL_def
      edit_request_of_def first_b64_def Let_def)

section \<open>Selecting a file\<close>

text \<open>No branch of \<open>handleFileSelect\<close> touches the prediction; it is clear after a selection
  that follows \<open>handleRemoveImage\<close> directly.\<close>

lemma handleFileSelect_keeps_prediction:
  "faceAgingResult (handleFileSelect p f outcome now w) = faceAgingResult w"
  by (simp add: handleFileSelect_def reader_onload_def setItem_def uncaught_def notify_def Let_def
      split: read_outcome.split)

lemma selectFile_after_remove:
  "faceAgingResult (handleFileSelect p f outcome now (handleRemoveImage q w)) = None"
  by (simp add: handleFileSelect_keeps_prediction handleRemoveImage_def notify_def Let_def)

text \<open>
  Claim C1: a successful \<open>selectFile\<close> writes the new data URL to the cache, clears the
  prediction and notifies the upload callback; a stored prediction is cleared whenever the
  asset changes. The code breaks this in the run where the image is removed while a
  prediction is pending and the response arrives afterwards: the next file is selected
  with that prediction in place, \<open>handleFileSelect\<close> leaves it there, and it is what the
  view shows in place of the new image.
\<close>

theorem selectFile_stale_prediction:
  "startsWith (ftype other_file) ''image/''
   \<and> faceAgingResult late_prediction_world = Some ''data:image/png;base64,QUdFRA==''
   \<and> uploadedImage (handleFileSelect sample_props other_file Loaded 1751371260000 late_prediction_world)
       = Some ''data:image/jpeg;base64,/9j/4AAQ''
   \<and> faceAgingResult (handleFileSelect sample_props other_file Loaded 1751371260000 late_prediction_world)
       = Some ''data:image/png;base64,QUdFRA==''
   \<and> displayed (handleFileSelect sample_props other_file Loaded 1751371260000 late_prediction_world)
       = Some ''data:image/png;base64,QUdFRA=='' "
  by (simp add: late_prediction_world_def handleFaceAging_settle_def handleRemoveImage_def
      handleFaceAging_begin_def handleFileSelect_def reader_onload_def setItem_def initial_def
      notify_def sample_props_def sample_file_def other_file_def startsWith_def aged_response_def
      ok_def result_prediction_def displayed_def truthy_def readAsDataURL_def Let_def)


section \<open>Removing the image\<close>

text \<open>
  Claim C6: after \<open>removeImage\<close> both cache keys are absent, the asset and the prediction
  are cleared, and the upload callback (when one is given) has been called with the empty
  string.
\<close>

theorem removeImage_clears:
  fixes p :: "'j props" and w :: world
  assumes "window_defined w"
  defines "w' \<equiv> handleRemoveImage p w"
  shows "localStorage w' ''cachedImage'' = None
       \<and> localStorage w' ''cachedImageTimestamp'' = None
       \<and> uploadedImage w' = None
       \<and> uploadedFile w' = None
       \<and> faceAgingResult w' = None
       \<and> uploads w' = uploads w @ (if onImageUpload p then [''''] else [])"
  using assms(1) unfolding w'_def
  by (simp add: handleRemoveImage_def notify_def Let_def)

theorem removeImage_clears_witness:
  "localStorage predicted_world ''cachedImage'' = Some ''data:image/png;base64,iVBORw0KGgo=''
   \<and> localStorage (handleRemoveImage sample_props predicted_world) ''cachedImage'' = None
   \<and> localStorage (handleRemoveImage sample_props predicted_world) ''cachedImageTimestamp'' = None
   \<and> faceAgingResult (handleRemoveImage sample_props predicted_world) = None
   \<and> uploads (handleRemoveImage sample_props predicted_world)
       = [''data:image/png;base64,iVBORw0KGgo='', []]"
  using removeImage_clears [of predicted_world sample_props]
  by (simp add: predicted_world_def handleFaceAging_def handleFaceAging_begin_def
      handleFaceAging_settle_def handleFileSelect_def reader_onload_def setItem_def notify_def
      initial_def sample_props_def sample_file_def aged_response_def startsWith_def ok_def
      result_prediction_def readAsDataURL_def Let_def)


section \<open>Capturing a photo\<close>

text \<open>
  Claim C5, as stated: whenever \<open>capturePhoto\<close> is called while the frame's width or height
  is zero it fails with \<open>StreamNotReady\<close>. The check of the canvas context comes first in
  the source: with a frame of size zero and a canvas that gives no 2D context the call
  ends with a console line and raises no alert.
\<close>

theorem capturePhoto_no_context_counterexample:
  "videoRef no_context_world
     = Some \<lparr>videoWidth = 0, videoHeight = 0, srcObject = Some 1, playing = False\<rparr>
   \<and> alerts (capturePhoto sample_props (Some ''/9j/4AAQ'') Loaded 1751371200000 no_context_world) = []
   \<and> console (capturePhoto sample_props (Some ''/9j/4AAQ'') Loaded 1751371200000 no_context_world)
       = [''Canvas context not available'']"
  by (simp add: no_context_world_def capturePhoto_def rerender_def handleCameraClick_def initial_def
      attach_stream_effect_def stream_cleanup_effect_def stop_tracks_def Let_def)

text \<open>
  Claim C5, amended: whenever \<open>capturePhoto\<close> is called while the video's frame width or
  height is zero, it produces no asset, does not touch the cache and leaves the whole
  component state as it was (only the two logs grow); it fails with \<open>StreamNotReady\<close>
  (the alert \<open>Camera not ready yet\<close>) when the canvas is mounted and gives a 2D context,
  and raises no alert otherwise.
\<close>

theorem capturePhoto_zero_frame:
  fixes p :: "'j props"
  assumes "videoRef w = Some v" and "videoWidth v = 0 \<or> videoHeight v = 0"
  shows "(capturePhoto p blob outcome now w)\<lparr>console := console w, alerts := alerts w\<rparr> = w
       \<and> alerts (capturePhoto p blob outcome now w)
           = (case canvasRef w of
                Some c \<Rightarrow>
                  if context2d c
                  then alerts w @ [''Camera not ready yet. Please wait a moment and try again.'']
                  else alerts w
              | None \<Rightarrow> alerts w)"
  using assms by (auto simp: capturePhoto_def split: option.splits)

theorem capturePhoto_zero_frame_witness:
  "videoRef camera_world = Some \<lparr>videoWidth = 0, videoHeight = 0, srcObject = Some 1, playing = False\<rparr>
   \<and> canvasRef camera_world = Some \<lparr>canvas_width = 300, canvas_height = 150, context2d = True\<rparr>
   \<and> alerts (capturePhoto sample_props (Some ''/9j/4AAQ'') Loaded 1751371200000 camera_world)
       = [''Camera not ready yet. Please wait a moment and try again.'']
   \<and> (capturePhoto sample_props (Some ''/9j/4AAQ'') Loaded 1751371200000 camera_world)
         \<lparr>console := console camera_world, alerts := alerts camera_world\<rparr> = camera_world"
proof -
  have v: "videoRef camera_world
             = Some \<lparr>videoWidth = 0, videoHeight = 0, srcObject = Some 1, playing = False\<rparr>"
    and c: "canvasRef camera_world
             = Some \<lparr>canvas_width = 300, canvas_height = 150, context2d = True\<rparr>"
    and a: "alerts camera_world = []"
    by (simp_all add: camera_world_def rerender_def handleCameraClick_def initial_def
        attach_stream_effect_def stream_cleanup_effect_def stop_tracks_def Let_def)
  show ?thesis
    using capturePhoto_zero_frame [OF v, of sample_props "Some ''/9j/4AAQ''" Loaded 1751371200000]
    by (simp add: v c a)
qed


section \<open>The local cache\<close>

lemma readAsDataURL_nonempty: "readAsDataURL f \<noteq> []"
  by (simp add: readAsDataURL_def)

lemma load_cached_image_written:
  fixes q :: "'j props"
  assumes "window_defined w"
    and "localStorage w ''cachedImage'' = Some url" and "url \<noteq> []"
    and "localStorage w ''cachedImageTimestamp'' = Some (toString T)"
  shows "load_cached_image q now w =
           (if now - T < twentyFourHours
            then notify q url (w\<lparr>uploadedImage := Some url\<rparr>)
            else remove_cached w)"
  using assms
  by (simp add: load_cached_image_def truthy_def toString_nonempty parseInt_toString)

lemma handleFileSelect_writes_cache:
  fixes p :: "'j props"
  assumes "startsWith (ftype f) ''image/''" and "window_defined w"
    and "\<not> quota_exceeded w ''cachedImage'' (readAsDataURL f)"
    and "\<not> quota_exceeded w ''cachedImageTimestamp'' (toString T)"
  shows "localStorage (handleFileSelect p f Loaded T w) =
           (localStorage w)(''cachedImage'' \<mapsto> readAsDataURL f,
                            ''cachedImageTimestamp'' \<mapsto> toString T)"
    and "uploadedImage (handleFileSelect p f Loaded T w) = Some (readAsDataURL f)"
    and "uploads (handleFileSelect p f Loaded T w)
           = uploads w @ (if onImageUpload p then [readAsDataURL f] else [])"
  using assms
  by (simp_all add: handleFileSelect_def reader_onload_def setItem_def notify_def Let_def)

text \<open>
  Claim C4: for a cache entry written at time \<open>T\<close> (the storage took both writes of
  \<open>selectFile\<close>), a read at any time before \<open>T + 24h\<close> restores the stored asset (and
  notifies the callback with it), and a read at \<open>T + 24h + 1ms\<close> or later restores nothing
  and removes both cache keys.
\<close>

theorem cache_expiry:
  fixes p :: "'j props" and q :: "'k props"
  assumes "startsWith (ftype f) ''image/''" and "window_defined w"
    and "\<not> quota_exceeded w ''cachedImage'' (readAsDataURL f)"
    and "\<not> quota_exceeded w ''cachedImageTimestamp'' (toString T)"
    and "window_defined w2"
    and "localStorage w2 = localStorage (handleFileSelect p f Loaded T w)"
  shows "(now < T + twentyFourHours \<longrightarrow>
            load_cached_image q now w2
              = notify q (readAsDataURL f) (w2\<lparr>uploadedImage := Some (readAsDataURL f)\<rparr>))
       \<and> (T + twentyFourHours + 1 \<le> now \<longrightarrow>
            load_cached_image q now w2 = remove_cached w2
          \<and> localStorage (load_cached_image q now w2) ''cachedImage'' = None
          \<and> localStorage (load_cached_image q now w2) ''cachedImageTimestamp'' = None
          \<and> uploadedImage (load_cached_image q now w2) = uploadedImage w2
          \<and> uploads (load_cached_image q now w2) = uploads w2)"
proof -
  have st: "localStorage w2 ''cachedImage'' = Some (readAsDataURL f)"
    "localStorage w2 ''cachedImageTimestamp'' = Some (toString T)"
    using assms(6) handleFileSelect_writes_cache(1) [OF assms(1-4), of p] by simp_all
  have "load_cached_image q now w2 =
           (if now - T < twentyFourHours
            then notify q (readAsDataURL f) (w2\<lparr>uploadedImage := Some (readAsDataURL f)\<rparr>)
            else remove_cached w2)"
    by (rule load_cached_image_written [OF assms(5) st(1) readAsDataURL_nonempty st(2)])
  then show ?thesis by (auto simp: remove_cached_def)
qed

theorem cache_expiry_witness:
  "uploadedImage (load_cached_image sample_props (1751371200000 + 86399999) reloaded_world)
     = Some ''data:image/png;base64,iVBORw0KGgo=''
   \<and> uploads (load_cached_image sample_props (1751371200000 + 86399999) reloaded_world)
     = [''data:image/png;base64,iVBORw0KGgo='']
   \<and> localStorage (load_cached_image sample_props (1751371200000 + 86400001) reloaded_world)
        ''cachedImage'' = None
   \<and> localStorage (load_cached_image sample_props (1751371200000 + 86400001) reloaded_world)
        ''cachedImageTimestamp'' = None
   \<and> uploadedImage (load_cached_image sample_props (1751371200000 + 86400001) reloaded_world)
        = None
   \<and> uploads (load_cached_image sample_props (1751371200000 + 86400001) reloaded_world) = []"
proof -
  have a: "startsWith (ftype sample_file) ''image/''"
    by (simp add: startsWith_def sample_file_def)
  have b: "window_defined (initial Map.empty)"
    "\<not> quota_exceeded (initial Map.empty) ''cachedImage'' (readAsDataURL sample_file)"
    "\<not> quota_exceeded (initial Map.empty) ''cachedImageTimestamp'' (toString 1751371200000)"
    "window_defined reloaded_world"
    by (simp_all add: reloaded_world_def initial_def)
  have c: "localStorage reloaded_world
             = localStorage (handleFileSelect sample_props sample_file Loaded 1751371200000
                 (initial Map.empty))"
    by (simp add: reloaded_world_def initial_def)
  have d: "uploadedImage reloaded_world = None" "uploads reloaded_world = []"
    by (simp_all add: reloaded_world_def initial_def)
  have e: "readAsDataURL sample_file = ''data:image/png;base64,iVBORw0KGgo=''"
    by (simp add: readAsDataURL_def sample_file_def)
  show ?thesis
    using cache_expiry [OF a b c, of "1751371200000 + 86399999" sample_props]
      cache_expiry [OF a b c, of "1751371200000 + 86400001" sample_props]
    by (simp add: twentyFourHours_def d e notify_def sample_props_def remove_cached_def)
qed

text \<open>When the storage takes both writes, the read of a reloaded component less than 24
  hours later gives back the data URL of the file.\<close>

lemma read_after_accepted_write:
  fixes p :: "'j props" and q :: "'k props" and f :: File and w :: world and now T :: int
  assumes "startsWith (ftype f) ''image/''" and "window_defined w"
    and "\<not> quota_exceeded w ''cachedImage'' (readAsDataURL f)"
    and "\<not> quota_exceeded w ''cachedImageTimestamp'' (toString T)"
    and "now - T < twentyFourHours"
  defines "reloaded \<equiv> load_cached_image q now (initial (localStorage (handleFileSelect p f Loaded T w)))"
  shows "uploadedImage reloaded = Some (readAsDataURL f)"
    and "uploads reloaded = (if onImageUpload q then [readAsDataURL f] else [])"
proof -
  let ?w0 = "initial (localStorage (handleFileSelect p f Loaded T w))"
  have win: "window_defined ?w0" by (simp add: initial_def)
  have st: "localStorage ?w0 ''cachedImage'' = Some (readAsDataURL f)"
    "localStorage ?w0 ''cachedImageTimestamp'' = Some (toString T)"
    using handleFileSelect_writes_cache(1) [OF assms(1-4), of p] by (simp_all add: initial_def)
  have r: "reloaded = notify q (readAsDataURL f) (?w0\<lparr>uploadedImage := Some (readAsDataURL f)\<rparr>)"
    unfolding reloaded_def
    using load_cached_image_written [OF win st(1) readAsDataURL_nonempty st(2), of q now] assms(5)
    by simp
  show "uploadedImage reloaded = Some (readAsDataURL f)"
    and "uploads reloaded = (if onImageUpload q then [readAsDataURL f] else [])"
    by (simp_all add: r notify_def initial_def)
qed
lemma large_file_over_quota:
  "quota_exceeded nearly_full_world ''cachedImage'' (readAsDataURL large_file)"
  by (simp add: nearly_full_world_def readAsDataURL_def large_file_def)

text \<open>
  Claim C7: for every valid image file, \<open>selectFile\<close> followed by a cache read within 24
  hours gives back exactly the data URL that \<open>selectFile\<close> produced. The code breaks this
  for a valid image file whose data URL does not fit in what is left of the storage quota:
  \<open>setItem\<close> throws inside \<open>onload\<close>, outside the \<open>try\<close> of \<open>handleFileSelect\<close>; the
  file is shown, nothing is cached, the callback is not called, \<open>isLoading\<close> stays set, and
  the read after a reload restores nothing.
\<close>

theorem selectFile_over_quota:
  "startsWith (ftype large_file) ''image/''
   \<and> length (readAsDataURL large_file) = 2023
   \<and> quota_exceeded nearly_full_world ''cachedImage'' (readAsDataURL large_file)
   \<and> uploadedImage (handleFileSelect sample_props large_file Loaded 1751371200000 nearly_full_world)
       = Some (readAsDataURL large_file)
   \<and> localStorage (handleFileSelect sample_props large_file Loaded 1751371200000 nearly_full_world)
       = Map.empty
   \<and> uploads (handleFileSelect sample_props large_file Loaded 1751371200000 nearly_full_world) = []
   \<and> isLoading (handleFileSelect sample_props large_file Loaded 1751371200000 nearly_full_world)
   \<and> uploadedImage (load_cached_image sample_props (1751371200000 + 3600000)
        (initial (localStorage
           (handleFileSelect sample_props large_file Loaded 1751371200000 nearly_full_world))))
       = None"
proof -
  have t: "startsWith (ftype large_file) ''image/''"
    by (simp add: startsWith_def large_file_def)
  have n: "length (readAsDataURL large_file) = 2023"
    by (simp add: readAsDataURL_def large_file_def)
  have h: "handleFileSelect sample_props large_file Loaded 1751371200000 nearly_full_world
      = uncaught ''QuotaExceededError''
          (nearly_full_world\<lparr>isLoading := True, uploadedImage := Some (readAsDataURL large_file),
                               uploadedFile := Some large_file\<rparr>)"
    using t large_file_over_quota
    by (simp add: handleFileSelect_def reader_onload_def setItem_def Let_def nearly_full_world_def
        initial_def)
  show ?thesis
    unfolding h
    by (simp add: t n large_file_over_quota uncaught_def nearly_full_world_def initial_def
        load_cached_image_def)
qed


section \<open>Camera streams\<close>

















end
